theory Spec2Isabelle
  imports Complex_Main
begin

section \<open>JavaScript strings and numbers\<close>

text \<open>
  A verification of the Tempo worker: the command parser, the direct-command and
  campaign-reply processors, the transfer executor and the poll cursor, each written after
  its JavaScript source (p2p.js, database.js, blockchain.js).

  Tweet texts, handles and hashes are \<open>string\<close>s; a character beyond ASCII stands as
  its UTF-8 bytes. Case folding (\<open>toLowerCase\<close>, the \<open>i\<close> flag of a regular expression)
  is the ASCII one; the character classes \<open>\<bsol>d\<close>, \<open>\<bsol>w\<close> and \<open>[a-zA-Z0-9_-]\<close> are ASCII
  in JavaScript as well, and \<open>\<bsol>s\<close> is taken over the ASCII white space.

  A JavaScript Number is modelled by the rational it denotes (\<open>rat\<close>), \<open>NaN\<close> by
  \<open>None\<close> where a conversion can produce it; the rounding of IEEE doubles is not part
  of the model. A BigInt is an \<open>int\<close>.
\<close>

definition upper_letters :: string where
  "upper_letters = ''ABCDEFGHIJKLMNOPQRSTUVWXYZ''"

definition lower_letters :: string where
  "lower_letters = ''abcdefghijklmnopqrstuvwxyz''"

definition digit_chars :: string where
  "digit_chars = ''0123456789''"

definition lower_char :: "char \<Rightarrow> char" where
  "lower_char c = (case map_of (zip upper_letters lower_letters) c of Some d \<Rightarrow> d | None \<Rightarrow> c)"

definition toLowerCase :: "string \<Rightarrow> string" where
  "toLowerCase s = map lower_char s"

text \<open>\<open>\<bsol>d\<close>\<close>

definition is_digit :: "char \<Rightarrow> bool" where
  "is_digit c \<longleftrightarrow> c \<in> set digit_chars"

text \<open>\<open>[a-zA-Z0-9_-]\<close>\<close>

definition is_handle_char :: "char \<Rightarrow> bool" where
  "is_handle_char c \<longleftrightarrow> c \<in> set (lower_letters @ upper_letters @ digit_chars @ ''_-'')"

text \<open>\<open>\<bsol>w\<close>\<close>

definition is_word_char :: "char \<Rightarrow> bool" where
  "is_word_char c \<longleftrightarrow> c \<in> set (lower_letters @ upper_letters @ digit_chars @ ''_'')"

text \<open>\<open>\<bsol>s\<close>: space, tab, line feed, vertical tab, form feed, carriage return.\<close>

definition is_space :: "char \<Rightarrow> bool" where
  "is_space c \<longleftrightarrow> c \<in> set [CHR '' '', CHR 0x09, CHR 0x0A, CHR 0x0B, CHR 0x0C, CHR 0x0D]"

fun startsWith :: "string \<Rightarrow> string \<Rightarrow> bool" where
  "startsWith s [] = True"
| "startsWith [] (p # ps) = False"
| "startsWith (c # cs) (p # ps) = (c = p \<and> startsWith cs ps)"

text \<open>\<open>s.includes(sub)\<close>\<close>

fun includes_str :: "string \<Rightarrow> string \<Rightarrow> bool" where
  "includes_str [] sub = (sub = [])"
| "includes_str (c # cs) sub = (startsWith (c # cs) sub \<or> includes_str cs sub)"

definition digit_value :: "char \<Rightarrow> nat" where
  "digit_value c =
     (case map_of (zip digit_chars [0, 1, 2, 3, 4, 5, 6, 7, 8, 9]) c of Some d \<Rightarrow> d | None \<Rightarrow> 0)"

definition decimal_value :: "string \<Rightarrow> nat" where
  "decimal_value ds = foldl (\<lambda>a c. 10 * a + digit_value c) 0 ds"

text \<open>
  \<open>parseFloat\<close> on the strings this program passes to it: an optional minus sign, decimal
  digits and an optional fraction (the capture of the amount pattern, the output of
  \<open>formatUnits\<close>, the literal \<open>'0'\<close>). A string that does not start with such a number
  gives \<open>NaN\<close>. Exponents, a leading dot, leading white space and \<open>Infinity\<close> do not
  occur in those strings and are not read.
\<close>

definition parseFloat :: "string \<Rightarrow> rat option" where
  "parseFloat s =
     (let neg = startsWith s ''-'';
          t = (if neg then drop 1 s else s);
          ip = takeWhile is_digit t
      in if ip = [] then None
         else
           let fp = (case dropWhile is_digit t of
                       [] \<Rightarrow> []
                     | c # r \<Rightarrow> if c = CHR ''.'' then takeWhile is_digit r else []);
               v = of_nat (decimal_value ip) + of_nat (decimal_value fp) / 10 ^ length fp
           in Some (if neg then - v else v))"

section \<open>Command parser (p2p.js)\<close>

text \<open>
  The part of \<open>/\<bsol>$(\<bsol>d+(?:\<bsol>.\<bsol>d+)?)/\<close> after the dollar sign, on a string that starts
  with a digit: the digits (greedy), then a dot and more digits when both are there.
\<close>

definition capture_amount :: "string \<Rightarrow> string" where
  "capture_amount cs =
     (let ip = takeWhile is_digit cs
      in case dropWhile is_digit cs of
           [] \<Rightarrow> ip
         | c # r \<Rightarrow>
             if c = CHR ''.'' \<and> takeWhile is_digit r \<noteq> []
             then ip @ CHR ''.'' # takeWhile is_digit r else ip)"

text \<open>\<open>lower.match(/\<bsol>$(\<bsol>d+(?:\<bsol>.\<bsol>d+)?)/)\<close>: the capture group of the leftmost match.\<close>

fun match_amount :: "string \<Rightarrow> string option" where
  "match_amount [] = None"
| "match_amount (c # cs) =
     (if c = CHR ''$'' \<and> takeWhile is_digit cs \<noteq> [] then Some (capture_amount cs)
      else match_amount cs)"

text \<open>\<open>text.match(/@([a-zA-Z0-9_-]+)/g) || []\<close>: all matches, left to right, each with its \<open>@\<close>.\<close>

function match_mentions :: "string \<Rightarrow> string list" where
  "match_mentions [] = []"
| "match_mentions (c # cs) =
     (if c = CHR ''@'' \<and> takeWhile is_handle_char cs \<noteq> []
      then (c # takeWhile is_handle_char cs) # match_mentions (dropWhile is_handle_char cs)
      else match_mentions cs)"
  by pat_completeness auto
termination
  by (relation "measure length") (auto simp: length_dropWhile_le less_Suc_eq_le)

record parsed_command =
  amount :: rat
  recipients :: "string list"
  isEach :: bool

definition parseP2PCommand :: "string \<Rightarrow> parsed_command option" where
  "parseP2PCommand text =
     (let lower = toLowerCase text
      in case match_amount lower of
           None \<Rightarrow> None
         | Some amountMatch \<Rightarrow>
            (case parseFloat amountMatch of
               None \<Rightarrow> None
             | Some a \<Rightarrow>
                 if a \<le> 0 \<or> a > 10000 then None
                 else
                   let mentions = match_mentions text;
                       rs = filter (\<lambda>m. m \<noteq> ''monibot'' \<and> m \<noteq> ''monipay'')
                              (map (\<lambda>m. toLowerCase (drop 1 m)) mentions)
                   in if length rs = 0 then None
                      else Some \<lparr>amount = a, recipients = rs,
                                 isEach = includes_str lower ''each''\<rparr>))"



section \<open>Transfer executor (blockchain.js)\<close>

definition ALPHA_USD :: string where
  "ALPHA_USD = ''0x20c0000000000000000000000000000000000001''"

definition DECIMALS :: nat where
  "DECIMALS = 6"

definition TREASURY :: string where
  "TREASURY = ''0xDC9B47551734bE984D7Aa2a365251E002f8FF2D7''"

definition FEE_BPS :: int where
  "FEE_BPS = 130"

definition MONIBOT_ROUTER :: string where
  "MONIBOT_ROUTER = ''0x78A824fDE7Ee3E69B2e2Ee52d1136EECD76749fc''"

text \<open>A thrown \<open>Error\<close>, with its message.\<close>

datatype js_error = Error string

text \<open>Division of BigInts truncates toward zero.\<close>

definition bigint_div :: "int \<Rightarrow> int \<Rightarrow> int" where
  "bigint_div a b = sgn a * sgn b * (\<bar>a\<bar> div \<bar>b\<bar>)"

fun show_nat :: "nat \<Rightarrow> string" where
  "show_nat n =
     (if n < 10 then [digit_chars ! n] else show_nat (n div 10) @ [digit_chars ! (n mod 10)])"

declare show_nat.simps [simp del]

text \<open>
  The two conversions that blockchain.js imports from the viem library, after the
  library's behaviour. \<open>formatUnits\<close> writes a BigInt of smallest units as a decimal
  string: the digits are padded on the left to \<open>decimals\<close> places, split, and the
  trailing zeros of the fraction dropped.
\<close>

definition formatUnits :: "int \<Rightarrow> nat \<Rightarrow> string" where
  "formatUnits v decimals =
     (let negative = v < 0;
          digits = show_nat (nat \<bar>v\<bar>);
          display = replicate (decimals - length digits) (CHR ''0'') @ digits;
          integer = take (length display - decimals) display;
          fraction = drop (length display - decimals) display;
          fraction' = rev (dropWhile (\<lambda>c. c = CHR ''0'') (rev fraction))
      in (if negative then ''-'' else []) @ (if integer = [] then ''0'' else integer) @
         (if fraction' = [] then [] else CHR ''.'' # fraction'))"

text \<open>
  \<open>parseUnits(amount.toString(), decimals)\<close>, on a Number. \<open>toString\<close> writes a Number
  other than zero in exponent notation when its magnitude is below \<open>1e-6\<close> or at least
  \<open>1e21\<close>, and \<open>parseUnits\<close> throws on a string that is not a plain decimal; otherwise the
  decimal is scaled by \<open>10 ^ decimals\<close> and the digits beyond are rounded half up.
\<close>

definition parseUnits_toString :: "rat \<Rightarrow> nat \<Rightarrow> js_error + int" where
  "parseUnits_toString a decimals =
     (if a \<noteq> 0 \<and> (\<bar>a\<bar> < 1 / 10 ^ 6 \<or> 10 ^ 21 \<le> \<bar>a\<bar>)
      then Inl (Error ''InvalidDecimalNumberError'')
      else Inr ((if a < 0 then - 1 else 1) * \<lfloor>\<bar>a\<bar> * 10 ^ decimals + 1 / 2\<rfloor>))"

text \<open>One argument of a contract call.\<close>

datatype contract_arg = Address "string option" | Uint256 int | String string

text \<open>The request of \<open>walletClient.writeContract\<close> (the ABI is fixed by the function).\<close>

record write_request =
  address :: string
  functionName :: string
  args :: "contract_arg list"

datatype receipt_status = success | reverted

record receipt =
  blockNumber :: nat
  receipt_status :: receipt_status

text \<open>What \<open>executeGrant\<close> and \<open>executeTransfer\<close> return.\<close>

record transfer_result =
  txHash :: string
  res_amount :: string
  fee :: string
  netAmount :: string
  res_blockNumber :: "string option"

section \<open>Collaborators and state\<close>

record tweet =
  tw_id :: string
  tw_text :: string
  author_id :: string
  referenced_tweets :: "string list"

record user =
  user_id :: string
  username :: string

text \<open>The response of \<open>twitter.v2.search\<close>: \<open>data.data\<close>, \<open>data.meta.newest_id\<close>, \<open>includes.users\<close>.\<close>

record search_response =
  data :: "tweet list option"
  newest_id :: "string option"
  users :: "user list"

record profile =
  profile_id :: string
  wallet_address :: "string option"
  tempo_address :: "string option"
  pay_tag :: "string option"
  x_username :: "string option"

record campaign =
  campaign_ident :: string
  grant_amount :: rat
  max_participants :: "int option"
  current_participants :: "int option"
  budget_spent :: "rat option"

datatype tx_type = grant | p2p_command

datatype tx_status = completed | failed | skipped

text \<open>
  The \<open>error_reason\<close> column holds a template string; the model keeps the template and
  what is put into it: \<open>Balance ${balance} < ${totalNeeded} ...\<close>,
  \<open>No profile for @${tag}\<close>, and the message of a caught error.
\<close>

datatype reason = Balance_below string rat | No_profile_for string | Message string

text \<open>A row of the table \<open>monibot_transactions\<close>. A Number column holds \<open>None\<close> for \<open>NaN\<close>.\<close>

record tx_row =
  tweet_id :: string
  chain :: string
  tx_hash :: string
  sender_id :: string
  receiver_id :: string
  amount_col :: "rat option"
  fee_col :: "rat option"
  type_col :: tx_type
  status :: tx_status
  payer_pay_tag :: "string option"
  recipient_pay_tag :: "string option"
  error_reason :: "reason option"
  replied :: "bool option"
  campaign_id :: "string option"

text \<open>
  What the outside world answers during one polling cycle. Each chain write is answered
  by the number of the call (the count of writes issued before it) and its request, so
  that two equal requests can end differently. \<open>db_up\<close> tells whether the datastore
  answers: a supabase call that fails does not throw, it resolves with \<open>data = null\<close>
  and an error that this program never reads.
\<close>

record env =
  MONIBOT_PROFILE_ID :: "string option"
  twitter_client :: bool
  search :: "string option \<Rightarrow> js_error + search_response"
  db_up :: bool
  profiles :: "profile list"
  readContract_balanceOf :: "string option \<Rightarrow> js_error + nat"
  writeContract :: "nat \<Rightarrow> write_request \<Rightarrow> js_error + string"
  waitForTransactionReceipt :: "string \<Rightarrow> nat \<Rightarrow> js_error + receipt"
  Date_now :: "nat \<Rightarrow> string"

text \<open>
  The state the program changes: the two tables it writes, the chain writes it has issued,
  and the module variable \<open>lastProcessedTweetId\<close> of p2p.js.
\<close>

record world =
  monibot_transactions :: "tx_row list"
  campaigns :: "campaign list"
  chain_calls :: "write_request list"
  lastProcessedTweetId :: "string option"

text \<open>\<open>a || b\<close> on strings that may be null: the empty string is falsy too.\<close>

definition js_or :: "string option \<Rightarrow> string option \<Rightarrow> string option" where
  "js_or a b = (case a of None \<Rightarrow> b | Some s \<Rightarrow> if s = [] then b else Some s)"

text \<open>\<open>walletClient.writeContract\<close>: the call is logged, the world answers.\<close>

definition do_writeContract :: "env \<Rightarrow> world \<Rightarrow> write_request \<Rightarrow> world \<times> (js_error + string)" where
  "do_writeContract e w req =
     (w\<lparr>chain_calls := chain_calls w @ [req]\<rparr>, writeContract e (length (chain_calls w)) req)"

definition executeGrant ::
  "env \<Rightarrow> world \<Rightarrow> string option \<Rightarrow> rat \<Rightarrow> string \<Rightarrow> world \<times> (js_error + transfer_result)" where
  "executeGrant e w recipientAddress a campaignId =
     (case parseUnits_toString a DECIMALS of
        Inl err \<Rightarrow> (w, Inl err)
      | Inr amountWei \<Rightarrow>
         (case do_writeContract e w
                 \<lparr>address = MONIBOT_ROUTER, functionName = ''executeGrant'',
                  args = [Address recipientAddress, Uint256 amountWei, String campaignId]\<rparr> of
            (w1, Inl err) \<Rightarrow> (w1, Inl err)
          | (w1, Inr hash) \<Rightarrow>
             (case waitForTransactionReceipt e hash 60000 of
                Inl err \<Rightarrow> (w1, Inl err)
              | Inr rcpt \<Rightarrow>
                  let fee_wei = bigint_div (amountWei * FEE_BPS) 10000;
                      netAmount_wei = amountWei - fee_wei
                  in (w1, Inr \<lparr>txHash = hash,
                               res_amount = formatUnits amountWei DECIMALS,
                               fee = formatUnits fee_wei DECIMALS,
                               netAmount = formatUnits netAmount_wei DECIMALS,
                               res_blockNumber = Some (show_nat (blockNumber rcpt))\<rparr>))))"

definition executeTransfer ::
  "env \<Rightarrow> world \<Rightarrow> string option \<Rightarrow> rat \<Rightarrow> string \<Rightarrow> world \<times> (js_error + transfer_result)" where
  "executeTransfer e w recipientAddress a memo =
     (case parseUnits_toString a DECIMALS of
        Inl err \<Rightarrow> (w, Inl err)
      | Inr amountWei \<Rightarrow>
          let fee_wei = bigint_div (amountWei * FEE_BPS) 10000;
              netAmount_wei = amountWei - fee_wei
          in (case do_writeContract e w
                     \<lparr>address = ALPHA_USD, functionName = ''transfer'',
                      args = [Address recipientAddress, Uint256 netAmount_wei]\<rparr> of
                (w1, Inl err) \<Rightarrow> (w1, Inl err)
              | (w1, Inr hash1) \<Rightarrow>
                 (case (if fee_wei > 0
                        then (case do_writeContract e w1
                                     \<lparr>address = ALPHA_USD, functionName = ''transfer'',
                                      args = [Address (Some TREASURY), Uint256 fee_wei]\<rparr> of
                                (w2, Inl err) \<Rightarrow> (w2, Some err)
                              | (w2, Inr hash2) \<Rightarrow> (w2, None))
                        else (w1, None)) of
                    (w2, Some err) \<Rightarrow> (w2, Inl err)
                  | (w2, None) \<Rightarrow>
                      (w2, Inr \<lparr>txHash = hash1,
                                res_amount = formatUnits amountWei DECIMALS,
                                fee = formatUnits fee_wei DECIMALS,
                                netAmount = formatUnits netAmount_wei DECIMALS,
                                res_blockNumber = None\<rparr>))))"

definition getAlphaUsdBalance :: "env \<Rightarrow> string option \<Rightarrow> string" where
  "getAlphaUsdBalance e addr =
     (case readContract_balanceOf e addr of
        Inr balance \<Rightarrow> formatUnits (int balance) DECIMALS
      | Inl err \<Rightarrow> ''0'')"

section \<open>Datastore calls\<close>

text \<open>
  \<open>from('monibot_transactions').select('id').eq('tweet_id', id).limit(1)\<close>: the data of
  the answer, \<open>None\<close> for null.
\<close>

definition select_existing :: "env \<Rightarrow> world \<Rightarrow> string \<Rightarrow> tx_row list option" where
  "select_existing e w tid =
     (if db_up e then Some (take 1 (filter (\<lambda>r. tweet_id r = tid) (monibot_transactions w)))
      else None)"

text \<open>\<open>existing?.length\<close> as a condition.\<close>

definition has_length :: "'a list option \<Rightarrow> bool" where
  "has_length rows = (case rows of None \<Rightarrow> False | Some rs \<Rightarrow> length rs \<noteq> 0)"

text \<open>\<open>from('monibot_transactions').insert(row)\<close>\<close>

definition insert_transaction :: "env \<Rightarrow> world \<Rightarrow> tx_row \<Rightarrow> world" where
  "insert_transaction e w row =
     (if db_up e then w\<lparr>monibot_transactions := monibot_transactions w @ [row]\<rparr> else w)"

text \<open>\<open>.single()\<close>: the row when the query has exactly one, null otherwise.\<close>

definition single :: "'a list \<Rightarrow> 'a option" where
  "single rows = (case rows of [r] \<Rightarrow> Some r | _ \<Rightarrow> None)"

text \<open>\<open>from('profiles').select(...).eq('x_username', name).single()\<close>\<close>

definition select_profile_by_username :: "env \<Rightarrow> string \<Rightarrow> profile option" where
  "select_profile_by_username e name =
     (if db_up e then single (filter (\<lambda>p. x_username p = Some name) (profiles e)) else None)"

text \<open>\<open>from('profiles').select(...).or(`pay_tag.eq.${tag},x_username.eq.${tag}`).single()\<close>\<close>

definition select_profile_by_tag :: "env \<Rightarrow> string \<Rightarrow> profile option" where
  "select_profile_by_tag e tag =
     (if db_up e
      then single (filter (\<lambda>p. pay_tag p = Some tag \<or> x_username p = Some tag) (profiles e))
      else None)"

text \<open>
  \<open>from('campaigns').update({current_participants, budget_spent}).eq('id', campaign.id)\<close>,
  with the values computed from the campaign object read at the start of the cycle.
\<close>

definition update_campaign :: "env \<Rightarrow> world \<Rightarrow> campaign \<Rightarrow> world" where
  "update_campaign e w c =
     (if db_up e
      then w\<lparr>campaigns :=
             map (\<lambda>row. if campaign_ident row = campaign_ident c
                         then row\<lparr>current_participants :=
                                    Some ((case current_participants c of None \<Rightarrow> 0 | Some n \<Rightarrow> n) + 1),
                                  budget_spent :=
                                    Some ((case budget_spent c of None \<Rightarrow> 0 | Some b \<Rightarrow> b)
                                          + grant_amount c)\<rparr>
                         else row)
               (campaigns w)\<rparr>
      else w)"

section \<open>Direct-command processor (p2p.js)\<close>

definition TEMPO_KEYWORDS :: "string list" where
  "TEMPO_KEYWORDS = [''on tempo'', ''tempo'', ''alphausd'', [CHR 0xCE, CHR 0xB1] @ ''usd'']"

definition isTempoRelated :: "string \<Rightarrow> bool" where
  "isTempoRelated s = (let lower = toLowerCase s in list_ex (\<lambda>kw. includes_str lower kw) TEMPO_KEYWORDS)"

text \<open>
  \<open>/(?:send\<bsol>s+\<bsol>$?\<bsol>d|pay\<bsol>s+@?\<bsol>w+\<bsol>s+\<bsol>$?\<bsol>d)/i\<close>, tried at the start of a string. The
  classes \<open>\<bsol>s\<close>, \<open>\<bsol>w\<close>, \<open>@\<close> and \<open>$\<close> exclude one another, so each greedy run ends where
  the next part has to start and nothing is gained by backtracking.
\<close>

definition amount_start :: "string \<Rightarrow> bool" where
  "amount_start s =
     (case s of
        [] \<Rightarrow> False
      | c # r \<Rightarrow> if c = CHR ''$'' then (case r of [] \<Rightarrow> False | d # _ \<Rightarrow> is_digit d)
                 else is_digit c)"

definition spaces_then_amount :: "string \<Rightarrow> bool" where
  "spaces_then_amount s = (takeWhile is_space s \<noteq> [] \<and> amount_start (dropWhile is_space s))"

definition direct_command_here :: "string \<Rightarrow> bool" where
  "direct_command_here s =
     (let lower = toLowerCase s
      in (startsWith lower ''send'' \<and> spaces_then_amount (drop 4 s))
         \<or> (startsWith lower ''pay'' \<and>
             (let r = drop 3 s;
                  r1 = dropWhile is_space r;
                  r2 = (case r1 of [] \<Rightarrow> [] | c # t \<Rightarrow> if c = CHR ''@'' then t else r1)
              in takeWhile is_space r \<noteq> [] \<and> takeWhile is_word_char r2 \<noteq> [] \<and>
                 spaces_then_amount (dropWhile is_word_char r2))))"

text \<open>\<open>.test(tweet.text)\<close>: the pattern matches somewhere.\<close>

fun hasDirectCommand :: "string \<Rightarrow> bool" where
  "hasDirectCommand [] = False"
| "hasDirectCommand (c # cs) = (direct_command_here (c # cs) \<or> hasDirectCommand cs)"

definition bot_profile_id :: "env \<Rightarrow> string" where
  "bot_profile_id e =
     (case js_or (MONIBOT_PROFILE_ID e) None of
        Some i \<Rightarrow> i
      | None \<Rightarrow> ''00000000-0000-0000-0000-000000000000'')"

definition skipped_row :: "env \<Rightarrow> string \<Rightarrow> string \<Rightarrow> string \<Rightarrow> string option \<Rightarrow> tx_row" where
  "skipped_row e tweetId tx senderTag recipientTag =
     \<lparr>tweet_id = tweetId, chain = ''tempo'', tx_hash = tx,
      sender_id = bot_profile_id e, receiver_id = bot_profile_id e,
      amount_col = Some 0, fee_col = Some 0, type_col = p2p_command, status = skipped,
      payer_pay_tag = Some senderTag, recipient_pay_tag = recipientTag,
      error_reason = None, replied = Some False, campaign_id = None\<rparr>"

definition logSkip :: "env \<Rightarrow> world \<Rightarrow> string \<Rightarrow> string \<Rightarrow> string \<Rightarrow> string option \<Rightarrow> world" where
  "logSkip e w tweetId tx senderTag recipientTag =
     insert_transaction e w (skipped_row e tweetId tx senderTag recipientTag)"

text \<open>\<open>parsed.recipients.join(',')\<close>\<close>

fun join_comma :: "string list \<Rightarrow> string" where
  "join_comma [] = []"
| "join_comma [x] = x"
| "join_comma (x # y # ys) = x @ '','' @ join_comma (y # ys)"

text \<open>The row written when the sender's balance is below the total needed.\<close>

definition insufficient_balance_row ::
  "tweet \<Rightarrow> profile \<Rightarrow> parsed_command \<Rightarrow> string \<Rightarrow> rat \<Rightarrow> tx_row" where
  "insufficient_balance_row tw senderProfile parsed balance totalNeeded =
     \<lparr>tweet_id = tw_id tw, chain = ''tempo'', tx_hash = ''ERROR_INSUFFICIENT_BALANCE'',
      sender_id = profile_id senderProfile, receiver_id = profile_id senderProfile,
      amount_col = Some totalNeeded, fee_col = Some 0, type_col = p2p_command, status = failed,
      payer_pay_tag = pay_tag senderProfile,
      recipient_pay_tag = Some (join_comma (recipients parsed)),
      error_reason = Some (Balance_below balance totalNeeded),
      replied = Some False, campaign_id = None\<rparr>"

definition recipient_not_found_row :: "tweet \<Rightarrow> profile \<Rightarrow> parsed_command \<Rightarrow> string \<Rightarrow> tx_row" where
  "recipient_not_found_row tw senderProfile parsed recipientTag =
     \<lparr>tweet_id = tw_id tw, chain = ''tempo'', tx_hash = ''ERROR_RECIPIENT_NOT_FOUND'',
      sender_id = profile_id senderProfile, receiver_id = profile_id senderProfile,
      amount_col = Some (amount parsed), fee_col = Some 0, type_col = p2p_command,
      status = failed, payer_pay_tag = pay_tag senderProfile,
      recipient_pay_tag = Some recipientTag,
      error_reason = Some (No_profile_for recipientTag),
      replied = Some False, campaign_id = None\<rparr>"

definition completed_row :: "tweet \<Rightarrow> profile \<Rightarrow> profile \<Rightarrow> transfer_result \<Rightarrow> tx_row" where
  "completed_row tw senderProfile recipientProfile res =
     \<lparr>tweet_id = tw_id tw, chain = ''tempo'', tx_hash = txHash res,
      sender_id = profile_id senderProfile, receiver_id = profile_id recipientProfile,
      amount_col = parseFloat (netAmount res), fee_col = parseFloat (fee res),
      type_col = p2p_command, status = completed, payer_pay_tag = pay_tag senderProfile,
      recipient_pay_tag = pay_tag recipientProfile,
      error_reason = None, replied = Some False, campaign_id = None\<rparr>"

definition transfer_failed_row ::
  "env \<Rightarrow> world \<Rightarrow> tweet \<Rightarrow> profile \<Rightarrow> profile \<Rightarrow> parsed_command \<Rightarrow> js_error \<Rightarrow> tx_row" where
  "transfer_failed_row e w tw senderProfile recipientProfile parsed txError =
     \<lparr>tweet_id = tw_id tw, chain = ''tempo'',
      tx_hash = ''failed_'' @ Date_now e (length (monibot_transactions w)),
      sender_id = profile_id senderProfile, receiver_id = profile_id recipientProfile,
      amount_col = Some (amount parsed), fee_col = Some 0, type_col = p2p_command,
      status = failed, payer_pay_tag = pay_tag senderProfile,
      recipient_pay_tag = pay_tag recipientProfile,
      error_reason = Some (case txError of Error msg \<Rightarrow> Message msg),
      replied = Some False, campaign_id = None\<rparr>"

text \<open>The memo \<open>`P2P: @${author.username} \<rightarrow> @${recipientTag}`\<close>, its arrow in UTF-8.\<close>

definition transfer_memo :: "user \<Rightarrow> string \<Rightarrow> string" where
  "transfer_memo author recipientTag =
     ''P2P: @'' @ username author @ [CHR '' '', CHR 0xE2, CHR 0x86, CHR 0x92] @ '' @''
     @ recipientTag"

text \<open>
  The loop \<open>for (const recipientTag of parsed.recipients)\<close> of \<open>processP2PCommand\<close>, with
  \<open>successCount\<close> carried along.
\<close>

fun process_recipients ::
  "env \<Rightarrow> tweet \<Rightarrow> user \<Rightarrow> parsed_command \<Rightarrow> profile \<Rightarrow> string list \<Rightarrow> world \<times> nat \<Rightarrow> world \<times> nat"
  where
  "process_recipients e tw author parsed senderProfile [] (w, successCount) = (w, successCount)"
| "process_recipients e tw author parsed senderProfile (recipientTag # rest) (w, successCount) =
     (case select_profile_by_tag e recipientTag of
        None \<Rightarrow>
          process_recipients e tw author parsed senderProfile rest
            (insert_transaction e w (recipient_not_found_row tw senderProfile parsed recipientTag),
             successCount)
      | Some recipientProfile \<Rightarrow>
          let recipientAddress =
                js_or (tempo_address recipientProfile) (wallet_address recipientProfile)
          in (case executeTransfer e w recipientAddress (amount parsed)
                     (transfer_memo author recipientTag) of
                (w1, Inr res) \<Rightarrow>
                  process_recipients e tw author parsed senderProfile rest
                    (insert_transaction e w1 (completed_row tw senderProfile recipientProfile res),
                     successCount + 1)
              | (w1, Inl txError) \<Rightarrow>
                  process_recipients e tw author parsed senderProfile rest
                    (insert_transaction e w1
                       (transfer_failed_row e w1 tw senderProfile recipientProfile parsed txError),
                     successCount)))"

text \<open>\<open>parseFloat(balance) < totalNeeded\<close>: a comparison with \<open>NaN\<close> is false.\<close>

definition number_less :: "rat option \<Rightarrow> rat \<Rightarrow> bool" where
  "number_less x y = (case x of None \<Rightarrow> False | Some v \<Rightarrow> v < y)"

definition processP2PCommand :: "env \<Rightarrow> world \<Rightarrow> tweet \<Rightarrow> user \<Rightarrow> world \<times> bool" where
  "processP2PCommand e w tw author =
     (if has_length (select_existing e w (tw_id tw)) then (w, False)
      else if ''quoted'' \<in> set (referenced_tweets tw) \<and> \<not> hasDirectCommand (tw_text tw)
      then (logSkip e w (tw_id tw) ''SKIP_QUOTE_NOT_COMMAND'' (username author) None, False)
      else
        (case parseP2PCommand (tw_text tw) of
           None \<Rightarrow> (logSkip e w (tw_id tw) ''SKIP_PARSE_FAILED'' (username author) None, False)
         | Some parsed \<Rightarrow>
            (case select_profile_by_username e (username author) of
               None \<Rightarrow>
                 (logSkip e w (tw_id tw) ''ERROR_SENDER_NOT_FOUND'' (username author)
                    (case recipients parsed of [] \<Rightarrow> None | r # _ \<Rightarrow> Some r),
                  False)
             | Some senderProfile \<Rightarrow>
                 let senderAddress =
                       js_or (tempo_address senderProfile) (wallet_address senderProfile);
                     balance = getAlphaUsdBalance e senderAddress;
                     totalNeeded = amount parsed * of_nat (length (recipients parsed))
                 in if number_less (parseFloat balance) totalNeeded
                    then (insert_transaction e w
                            (insufficient_balance_row tw senderProfile parsed balance totalNeeded),
                          False)
                    else
                      (case process_recipients e tw author parsed senderProfile
                              (recipients parsed) (w, 0) of
                         (w', successCount) \<Rightarrow> (w', successCount > 0)))))"

text \<open>The loop \<open>for (const tweet of mentions.data.data)\<close> of \<open>pollP2PCommands\<close>.\<close>

fun process_tweets :: "env \<Rightarrow> user list \<Rightarrow> tweet list \<Rightarrow> world \<times> nat \<Rightarrow> world \<times> nat" where
  "process_tweets e us [] (w, processed) = (w, processed)"
| "process_tweets e us (tw # rest) (w, processed) =
     (case find (\<lambda>u. user_id u = author_id tw) us of
        None \<Rightarrow> process_tweets e us rest (w, processed)
      | Some author \<Rightarrow>
          if \<not> isTempoRelated (tw_text tw) then process_tweets e us rest (w, processed)
          else (case processP2PCommand e w tw author of
                  (w', result) \<Rightarrow>
                    process_tweets e us rest (w', if result then processed + 1 else processed)))"

text \<open>
  One call of \<open>pollP2PCommands\<close>. The search is made with \<open>since_id\<close> when the cursor is
  set; an error thrown by the search is caught and the call returns 0.
\<close>

definition pollP2PCommands :: "env \<Rightarrow> world \<Rightarrow> world \<times> nat" where
  "pollP2PCommands e w =
     (if \<not> twitter_client e then (w, 0)
      else
        (case search e (js_or (lastProcessedTweetId w) None) of
           Inl err \<Rightarrow> (w, 0)
         | Inr mentions \<Rightarrow>
            (case data mentions of
               None \<Rightarrow> (w, 0)
             | Some tweets \<Rightarrow>
                 process_tweets e (users mentions) tweets
                   (w\<lparr>lastProcessedTweetId :=
                        js_or (newest_id mentions) (lastProcessedTweetId w)\<rparr>, 0))))"

section \<open>Campaign-reply processor (database.js)\<close>

datatype loop_control = Continue | Break

text \<open>\<open>campaign.max_participants && campaign.current_participants >= campaign.max_participants\<close>\<close>

definition at_capacity :: "campaign \<Rightarrow> bool" where
  "at_capacity c =
     (case max_participants c of
        None \<Rightarrow> False
      | Some m \<Rightarrow> m \<noteq> 0 \<and> (case current_participants c of None \<Rightarrow> 0 | Some n \<Rightarrow> n) \<ge> m)"

text \<open>The three rows the campaign loop writes.\<close>

definition no_profile_row :: "tweet \<Rightarrow> campaign \<Rightarrow> user \<Rightarrow> tx_row" where
  "no_profile_row reply c author =
     \<lparr>tweet_id = tw_id reply, chain = ''tempo'', tx_hash = ''skip_no_profile'',
      sender_id = campaign_ident c, receiver_id = campaign_ident c,
      amount_col = Some (grant_amount c), fee_col = Some 0, type_col = grant,
      status = skipped, payer_pay_tag = None, recipient_pay_tag = None,
      error_reason = Some (No_profile_for (username author)),
      replied = None, campaign_id = None\<rparr>"

definition grant_completed_row :: "tweet \<Rightarrow> campaign \<Rightarrow> profile \<Rightarrow> transfer_result \<Rightarrow> tx_row" where
  "grant_completed_row reply c prof res =
     \<lparr>tweet_id = tw_id reply, chain = ''tempo'', tx_hash = txHash res,
      sender_id = campaign_ident c, receiver_id = profile_id prof,
      amount_col = Some (grant_amount c), fee_col = parseFloat (fee res), type_col = grant,
      status = completed, payer_pay_tag = None, recipient_pay_tag = pay_tag prof,
      error_reason = None, replied = Some False, campaign_id = Some (campaign_ident c)\<rparr>"

definition grant_failed_row ::
  "env \<Rightarrow> world \<Rightarrow> tweet \<Rightarrow> campaign \<Rightarrow> profile \<Rightarrow> js_error \<Rightarrow> tx_row" where
  "grant_failed_row e w reply c prof txError =
     \<lparr>tweet_id = tw_id reply, chain = ''tempo'',
      tx_hash = ''failed_'' @ Date_now e (length (monibot_transactions w)),
      sender_id = campaign_ident c, receiver_id = profile_id prof,
      amount_col = Some (grant_amount c), fee_col = Some 0, type_col = grant,
      status = failed, payer_pay_tag = None, recipient_pay_tag = None,
      error_reason = Some (case txError of Error msg \<Rightarrow> Message msg),
      replied = None, campaign_id = None\<rparr>"

text \<open>
  The body of the loop \<open>for (const reply of replies.data.data)\<close> of
  \<open>processCampaignQueue\<close>: the new state, whether the loop goes on, and what is added to
  \<open>processed\<close>.
\<close>

definition processCampaignReply ::
  "env \<Rightarrow> campaign \<Rightarrow> user list \<Rightarrow> world \<Rightarrow> tweet \<Rightarrow> world \<times> loop_control \<times> nat" where
  "processCampaignReply e c us w reply =
     (if has_length (select_existing e w (tw_id reply)) then (w, Continue, 0)
      else if at_capacity c then (w, Break, 0)
      else
        (case find (\<lambda>u. user_id u = author_id reply) us of
           None \<Rightarrow> (w, Continue, 0)
         | Some author \<Rightarrow>
            (case select_profile_by_username e (username author) of
               None \<Rightarrow> (insert_transaction e w (no_profile_row reply c author), Continue, 0)
             | Some prof \<Rightarrow>
                 let recipientAddress = js_or (tempo_address prof) (wallet_address prof)
                 in (case executeGrant e w recipientAddress (grant_amount c) (campaign_ident c) of
                       (w1, Inr res) \<Rightarrow>
                         (update_campaign e
                            (insert_transaction e w1 (grant_completed_row reply c prof res)) c,
                          Continue, 1)
                     | (w1, Inl txError) \<Rightarrow>
                         (insert_transaction e w1 (grant_failed_row e w1 reply c prof txError),
                          Continue, 0)))))"


section \<open>The spec's total for a batch\<close>


section \<open>A small world for the examples\<close>

definition alice :: profile where
  "alice = \<lparr>profile_id = ''p-alice'', wallet_address = Some ''0xA11CE'', tempo_address = None,
             pay_tag = Some ''alice'', x_username = Some ''alice_x''\<rparr>"

definition bob :: profile where
  "bob = \<lparr>profile_id = ''p-bob'', wallet_address = Some ''0xB0B'', tempo_address = Some ''0xB0B7'',
           pay_tag = Some ''bob'', x_username = Some ''bob_x''\<rparr>"

definition carol :: profile where
  "carol = \<lparr>profile_id = ''p-carol'', wallet_address = None, tempo_address = Some ''0xCA401'',
             pay_tag = Some ''carol'', x_username = Some ''carol_x''\<rparr>"

text \<open>A profile with neither address.\<close>

definition dave :: profile where
  "dave = \<lparr>profile_id = ''p-dave'', wallet_address = None, tempo_address = None,
            pay_tag = Some ''dave'', x_username = Some ''dave_x''\<rparr>"

definition carol_user :: user where
  "carol_user = \<lparr>user_id = ''u3'', username = ''carol_x''\<rparr>"

text \<open>Two recipients, no \<open>each\<close>.\<close>

definition tweet_two :: tweet where
  "tweet_two = \<lparr>tw_id = ''1001'', tw_text = ''@monibot send $5 to @alice @bob on tempo'',
                 author_id = ''u3'', referenced_tweets = []\<rparr>"



text \<open>
  The datastore answers, every address but null can be read and written, the sender holds
  100 units, and every write is confirmed in block 7.
\<close>

definition example_env :: env where
  "example_env =
     \<lparr>MONIBOT_PROFILE_ID = None,
      twitter_client = True,
      search = (\<lambda>since. if since = None
                          then Inr \<lparr>data = Some [tweet_two], newest_id = Some ''1001'',
                                    users = [carol_user]\<rparr>
                          else Inr \<lparr>data = None, newest_id = None, users = []\<rparr>),
      db_up = True,
      profiles = [alice, bob, carol, dave],
      readContract_balanceOf =
        (\<lambda>a. if a = None then Inl (Error ''invalid address'') else Inr 100000000),
      writeContract =
        (\<lambda>n req. if Address None \<in> set (args req) then Inl (Error ''invalid address'')
                   else Inr (''0xhash'' @ show_nat n)),
      waitForTransactionReceipt = (\<lambda>h t. Inr \<lparr>blockNumber = 7, receipt_status = success\<rparr>),
      Date_now = (\<lambda>n. ''1700000000000'')\<rparr>"

text \<open>The same world when no transaction is ever mined: every wait for a receipt times out.\<close>

definition env_never_mined :: env where
  "env_never_mined =
     example_env\<lparr>waitForTransactionReceipt := (\<lambda>h t. Inl (Error ''timed out''))\<rparr>"


text \<open>The same world while no balance can be read.\<close>

definition env_rpc_down :: env where
  "env_rpc_down =
     example_env\<lparr>readContract_balanceOf := (\<lambda>a. Inl (Error ''rpc unreachable''))\<rparr>"

text \<open>The same world while the datastore does not answer.\<close>

definition env_db_down :: env where
  "env_db_down = example_env\<lparr>db_up := False\<rparr>"

definition example_campaign :: campaign where
  "example_campaign = \<lparr>campaign_ident = ''camp-1'', grant_amount = 2, max_participants = Some 5,
                        current_participants = Some 1, budget_spent = Some 2\<rparr>"

definition empty_world :: world where
  "empty_world = \<lparr>monibot_transactions = [], campaigns = [], chain_calls = [],
                   lastProcessedTweetId = None\<rparr>"

section \<open>The command parser\<close>



















lemmas char_defs = toLowerCase_def lower_char_def upper_letters_def lower_letters_def
  digit_chars_def is_digit_def is_handle_char_def is_word_char_def is_space_def

lemmas parse_defs = parseP2PCommand_def parseFloat_def capture_amount_def decimal_value_def
  digit_value_def


section \<open>What a call leaves unchanged\<close>

lemma parseP2PCommand_Some:
  assumes "parseP2PCommand s = Some p"
  shows "0 < amount p \<and> amount p \<le> 10000 \<and> recipients p \<noteq> []"
  using assms unfolding parseP2PCommand_def Let_def
  by (auto simp: filter_map comp_def split: option.splits if_splits)

lemma executeTransfer_frame:
  "monibot_transactions (fst (executeTransfer e w addr a memo)) = monibot_transactions w"
  "campaigns (fst (executeTransfer e w addr a memo)) = campaigns w"
  "lastProcessedTweetId (fst (executeTransfer e w addr a memo)) = lastProcessedTweetId w"
  by (simp_all add: executeTransfer_def Let_def do_writeContract_def split: sum.split)


lemma insert_transaction_ledger:
  "monibot_transactions (insert_transaction e w row) =
     monibot_transactions w @ (if db_up e then [row] else [])"
  by (simp add: insert_transaction_def)

lemma insert_transaction_frame:
  "chain_calls (insert_transaction e w row) = chain_calls w"
  "campaigns (insert_transaction e w row) = campaigns w"
  "lastProcessedTweetId (insert_transaction e w row) = lastProcessedTweetId w"
  by (simp_all add: insert_transaction_def)

lemma row_tweet_ids:
  "tweet_id (recipient_not_found_row tw sp p tag) = tw_id tw"
  "tweet_id (completed_row tw sp rp res) = tw_id tw"
  "tweet_id (transfer_failed_row e w tw sp rp p err) = tw_id tw"
  "tweet_id (insufficient_balance_row tw sp p bal tot) = tw_id tw"
  by (simp_all add: recipient_not_found_row_def completed_row_def transfer_failed_row_def
        insufficient_balance_row_def)

lemma process_recipients_ledger:
  "\<exists>added. monibot_transactions (fst (process_recipients e tw author p sp rs (w, n))) =
              monibot_transactions w @ added \<and>
           (\<forall>r\<in>set added. tweet_id r = tw_id tw) \<and>
           length added = (if db_up e then length rs else 0)"
proof (induction rs arbitrary: w n)
  case Nil
  then show ?case by simp
next
  case (Cons tag rest)
  show ?case
  proof (cases "select_profile_by_tag e tag")
    case None
    let ?w1 = "insert_transaction e w (recipient_not_found_row tw sp p tag)"
    from Cons.IH[of ?w1 n] obtain added where
      a: "monibot_transactions (fst (process_recipients e tw author p sp rest (?w1, n))) =
            monibot_transactions ?w1 @ added"
        "\<forall>r\<in>set added. tweet_id r = tw_id tw"
        "length added = (if db_up e then length rest else 0)"
      by blast
    let ?new = "(if db_up e then [recipient_not_found_row tw sp p tag] else []) @ added"
    have "monibot_transactions (fst (process_recipients e tw author p sp (tag # rest) (w, n))) =
            monibot_transactions w @ ?new"
      using None a(1) by (simp add: insert_transaction_ledger)
    moreover have "\<forall>r\<in>set ?new. tweet_id r = tw_id tw"
      using a(2) by (auto simp: row_tweet_ids)
    moreover have "length ?new = (if db_up e then length (tag # rest) else 0)"
      using a(3) by simp
    ultimately show ?thesis by blast
  next
    case (Some rp)
    let ?memo = "transfer_memo author tag"
    obtain w1 res where ex: "executeTransfer e w (js_or (tempo_address rp) (wallet_address rp))
        (amount p) ?memo = (w1, res)"
      by (cases "executeTransfer e w (js_or (tempo_address rp) (wallet_address rp))
        (amount p) ?memo") 
    have fr: "monibot_transactions w1 = monibot_transactions w"
      using executeTransfer_frame(1)[of e w "js_or (tempo_address rp) (wallet_address rp)" "amount p" ?memo]
      by (simp add: ex)
    let ?row = "case res of Inr r \<Rightarrow> completed_row tw sp rp r
                 | Inl err \<Rightarrow> transfer_failed_row e w1 tw sp rp p err"
    let ?n' = "case res of Inr r \<Rightarrow> n + 1 | Inl err \<Rightarrow> n"
    let ?w2 = "insert_transaction e w1 ?row"
    have step: "process_recipients e tw author p sp (tag # rest) (w, n) =
       process_recipients e tw author p sp rest (?w2, ?n')"
      using Some ex by (simp add: Let_def split: sum.splits)
    from Cons.IH[of ?w2 ?n'] obtain added where
      a: "monibot_transactions (fst (process_recipients e tw author p sp rest (?w2, ?n'))) =
            monibot_transactions ?w2 @ added"
        "\<forall>r\<in>set added. tweet_id r = tw_id tw"
        "length added = (if db_up e then length rest else 0)"
      by blast
    let ?new = "(if db_up e then [?row] else []) @ added"
    have "monibot_transactions (fst (process_recipients e tw author p sp rest (?w2, ?n'))) =
            monibot_transactions w @ ?new"
      using a(1) fr by (simp add: insert_transaction_ledger)
    then have "monibot_transactions (fst (process_recipients e tw author p sp (tag # rest) (w, n))) =
            monibot_transactions w @ ?new"
      by (simp only: step)
    moreover have "tweet_id ?row = tw_id tw"
      by (simp add: row_tweet_ids split: sum.splits)
    then have "\<forall>r\<in>set ?new. tweet_id r = tw_id tw"
      using a(2) by auto
    moreover have "length ?new = (if db_up e then length (tag # rest) else 0)"
      using a(3) by simp
    ultimately show ?thesis by blast
  qed
qed

section \<open>Evaluating the examples\<close>

lemma floor_rat_numeral_div [simp]: "\<lfloor>numeral a / numeral b :: rat\<rfloor> = numeral a div numeral b"
  by (metis floor_divide_of_int_eq of_int_numeral)

lemmas example_defs = example_env_def empty_world_def alice_def bob_def carol_def dave_def
  carol_user_def

lemmas db_defs = select_existing_def has_length_def insert_transaction_def single_def
  select_profile_by_username_def select_profile_by_tag_def

lemma parse_tweet_two:
  "parseP2PCommand (tw_text tweet_two) =
     Some \<lparr>amount = 5, recipients = [''alice'', ''bob''], isEach = False\<rparr>"
  by (simp add: tweet_two_def parse_defs char_defs)

lemma format_examples:
  "formatUnits 5000000 DECIMALS = ''5''" "formatUnits 65000 DECIMALS = ''0.065''"
  "formatUnits 4935000 DECIMALS = ''4.935''" "formatUnits 100000000 DECIMALS = ''100''"
  "formatUnits 8000000 DECIMALS = ''8''" "formatUnits 0 DECIMALS = ''0''"
  by (simp_all add: formatUnits_def show_nat.simps digit_chars_def DECIMALS_def)

lemma parseFloat_examples:
  "parseFloat ''0.065'' = Some (13 / 200)" "parseFloat ''4.935'' = Some (987 / 200)"
  "parseFloat ''100'' = Some 100" "parseFloat ''0'' = Some 0" "parseFloat ''8'' = Some 8"
  by (simp_all add: parseFloat_def decimal_value_def digit_value_def is_digit_def digit_chars_def)

lemma parseUnits_5: "parseUnits_toString 5 DECIMALS = Inr 5000000"
  by (simp add: parseUnits_toString_def DECIMALS_def)

lemmas chain_defs = executeTransfer_def executeGrant_def do_writeContract_def
  getAlphaUsdBalance_def ALPHA_USD_def TREASURY_def MONIBOT_ROUTER_def js_or_def

lemmas row_defs = completed_row_def transfer_failed_row_def recipient_not_found_row_def
  insufficient_balance_row_def logSkip_def skipped_row_def bot_profile_id_def number_less_def

lemmas case_congs = option.case_cong_weak sum.case_cong_weak prod.case_cong_weak
  list.case_cong_weak


lemma show_nat_small:
  "show_nat 0 = ''0''" "show_nat (Suc 0) = ''1''" "show_nat (Suc (Suc 0)) = ''2''"
  "show_nat (Suc (Suc (Suc 0))) = ''3''"
  by (simp_all add: show_nat.simps digit_chars_def)

lemma fee_5: "bigint_div (5000000 * FEE_BPS) 10000 = 65000"
  by (simp add: bigint_div_def FEE_BPS_def)

lemma process_tweet_two:
  "processP2PCommand example_env empty_world tweet_two carol_user =
   (\<lparr>monibot_transactions =
       [\<lparr>tweet_id = ''1001'', chain = ''tempo'', tx_hash = ''0xhash0'',
         sender_id = ''p-carol'', receiver_id = ''p-alice'',
         amount_col = Some (987 / 200), fee_col = Some (13 / 200),
         type_col = p2p_command, status = completed,
         payer_pay_tag = Some ''carol'', recipient_pay_tag = Some ''alice'',
         error_reason = None, replied = Some False, campaign_id = None\<rparr>,
        \<lparr>tweet_id = ''1001'', chain = ''tempo'', tx_hash = ''0xhash2'',
         sender_id = ''p-carol'', receiver_id = ''p-bob'',
         amount_col = Some (987 / 200), fee_col = Some (13 / 200),
         type_col = p2p_command, status = completed,
         payer_pay_tag = Some ''carol'', recipient_pay_tag = Some ''bob'',
         error_reason = None, replied = Some False, campaign_id = None\<rparr>],
     campaigns = [],
     chain_calls =
       [\<lparr>address = ALPHA_USD, functionName = ''transfer'',
           args = [Address (Some ''0xA11CE''), Uint256 4935000]\<rparr>,
        \<lparr>address = ALPHA_USD, functionName = ''transfer'',
           args = [Address (Some TREASURY), Uint256 65000]\<rparr>,
        \<lparr>address = ALPHA_USD, functionName = ''transfer'',
           args = [Address (Some ''0xB0B7''), Uint256 4935000]\<rparr>,
        \<lparr>address = ALPHA_USD, functionName = ''transfer'',
           args = [Address (Some TREASURY), Uint256 65000]\<rparr>],
     lastProcessedTweetId = None\<rparr>, True)"
  unfolding processP2PCommand_def parse_tweet_two
  by (simp add: tweet_two_def example_defs db_defs chain_defs row_defs
        parseUnits_5 fee_5 format_examples parseFloat_examples show_nat_small Let_def
      cong: case_congs)

section \<open>The ledger only grows\<close>

lemma has_length_select_existing:
  "has_length (select_existing e w tid) \<longleftrightarrow>
     db_up e \<and> (\<exists>r\<in>set (monibot_transactions w). tweet_id r = tid)"
proof -
  have "take 1 xs = [] \<longleftrightarrow> xs = []" for xs :: "tx_row list"
    by (cases xs) simp_all
  then show ?thesis
    by (auto simp: has_length_def select_existing_def filter_empty_conv)
qed

lemma skipped_row_sel:
  "tweet_id (skipped_row e tid tx sender rcpt) = tid"
  "status (skipped_row e tid tx sender rcpt) = skipped"
  "tx_hash (skipped_row e tid tx sender rcpt) = tx"
  by (simp_all add: skipped_row_def)

lemma processP2PCommand_ledger:
  "\<exists>added. monibot_transactions (fst (processP2PCommand e w tw author)) =
              monibot_transactions w @ added \<and>
           (\<forall>r\<in>set added. tweet_id r = tw_id tw) \<and>
           length added \<le> (case parseP2PCommand (tw_text tw) of
                              None \<Rightarrow> 1 | Some p \<Rightarrow> length (recipients p)) \<and>
           (db_up e \<and> \<not> has_length (select_existing e w (tw_id tw)) \<longrightarrow> added \<noteq> [])"
proof -
  let ?bound = "case parseP2PCommand (tw_text tw) of None \<Rightarrow> 1 | Some p \<Rightarrow> length (recipients p)"
  have pos: "1 \<le> ?bound"
    using parseP2PCommand_Some[of "tw_text tw"]
    by (cases "parseP2PCommand (tw_text tw)") (auto simp: Suc_le_eq)
  have one: "\<exists>added. monibot_transactions (if db_up e
                 then w\<lparr>monibot_transactions := monibot_transactions w @ [row]\<rparr> else w) =
              monibot_transactions w @ added \<and>
           (\<forall>r\<in>set added. tweet_id r = tw_id tw) \<and> length added \<le> ?bound \<and>
           (db_up e \<and> \<not> has_length (select_existing e w (tw_id tw)) \<longrightarrow> added \<noteq> [])"
    if "tweet_id row = tw_id tw" for row
    using that pos by (cases "db_up e") auto
  consider (dup) "has_length (select_existing e w (tw_id tw))"
    | (quote) "\<not> has_length (select_existing e w (tw_id tw))"
        "''quoted'' \<in> set (referenced_tweets tw) \<and> \<not> hasDirectCommand (tw_text tw)"
    | (noparse) "\<not> has_length (select_existing e w (tw_id tw))"
        "\<not> (''quoted'' \<in> set (referenced_tweets tw) \<and> \<not> hasDirectCommand (tw_text tw))"
        "parseP2PCommand (tw_text tw) = None"
    | (nosender) p where "\<not> has_length (select_existing e w (tw_id tw))"
        "\<not> (''quoted'' \<in> set (referenced_tweets tw) \<and> \<not> hasDirectCommand (tw_text tw))"
        "parseP2PCommand (tw_text tw) = Some p"
        "select_profile_by_username e (username author) = None"
    | (sender) p sp where "\<not> has_length (select_existing e w (tw_id tw))"
        "\<not> (''quoted'' \<in> set (referenced_tweets tw) \<and> \<not> hasDirectCommand (tw_text tw))"
        "parseP2PCommand (tw_text tw) = Some p"
        "select_profile_by_username e (username author) = Some sp"
    by (cases "parseP2PCommand (tw_text tw)"; cases "select_profile_by_username e (username author)")
       auto
  then show ?thesis
  proof cases
    case dup
    then have "processP2PCommand e w tw author = (w, False)"
      by (simp add: processP2PCommand_def)
    with dup show ?thesis by simp
  next
    case quote
    define row where "row = skipped_row e (tw_id tw) ''SKIP_QUOTE_NOT_COMMAND'' (username author) None"
    have row: "tweet_id row = tw_id tw"
      "logSkip e w (tw_id tw) ''SKIP_QUOTE_NOT_COMMAND'' (username author) None =
       (if db_up e then w\<lparr>monibot_transactions := monibot_transactions w @ [row]\<rparr> else w)"
      by (simp_all add: row_def skipped_row_sel logSkip_def insert_transaction_def)
    have "fst (processP2PCommand e w tw author) =
       (if db_up e then w\<lparr>monibot_transactions := monibot_transactions w @ [row]\<rparr> else w)"
      using quote row(2) by (auto simp: processP2PCommand_def)
    with one[OF row(1)] show ?thesis by simp
  next
    case noparse
    define row where "row = skipped_row e (tw_id tw) ''SKIP_PARSE_FAILED'' (username author) None"
    have row: "tweet_id row = tw_id tw"
      "logSkip e w (tw_id tw) ''SKIP_PARSE_FAILED'' (username author) None =
       (if db_up e then w\<lparr>monibot_transactions := monibot_transactions w @ [row]\<rparr> else w)"
      by (simp_all add: row_def skipped_row_sel logSkip_def insert_transaction_def)
    have "fst (processP2PCommand e w tw author) =
       (if db_up e then w\<lparr>monibot_transactions := monibot_transactions w @ [row]\<rparr> else w)"
      using noparse row(2) by (auto simp: processP2PCommand_def)
    with one[OF row(1)] show ?thesis by simp
  next
    case nosender
    let ?r = "case recipients p of [] \<Rightarrow> None | r # _ \<Rightarrow> Some r"
    define row where "row = skipped_row e (tw_id tw) ''ERROR_SENDER_NOT_FOUND'' (username author) ?r"
    have row: "tweet_id row = tw_id tw"
      "logSkip e w (tw_id tw) ''ERROR_SENDER_NOT_FOUND'' (username author) ?r =
       (if db_up e then w\<lparr>monibot_transactions := monibot_transactions w @ [row]\<rparr> else w)"
      by (simp_all add: row_def skipped_row_sel logSkip_def insert_transaction_def)
    have "fst (processP2PCommand e w tw author) =
       (if db_up e then w\<lparr>monibot_transactions := monibot_transactions w @ [row]\<rparr> else w)"
      using nosender row(2) by (auto simp: processP2PCommand_def)
    with one[OF row(1)] show ?thesis by simp
  next
    case sender
    let ?addr = "js_or (tempo_address sp) (wallet_address sp)"
    let ?bal = "getAlphaUsdBalance e ?addr"
    let ?tot = "amount p * of_nat (length (recipients p))"
    show ?thesis
    proof (cases "number_less (parseFloat ?bal) ?tot")
      case True
      let ?row = "insufficient_balance_row tw sp p ?bal ?tot"
      have "fst (processP2PCommand e w tw author) = insert_transaction e w ?row"
        using sender True by (auto simp: processP2PCommand_def Let_def)
      then have "fst (processP2PCommand e w tw author) =
         (if db_up e then w\<lparr>monibot_transactions := monibot_transactions w @ [?row]\<rparr> else w)"
        by (simp add: insert_transaction_def)
      with one[of ?row] show ?thesis by (simp add: row_tweet_ids)
    next
      case False
      have eq: "fst (processP2PCommand e w tw author) =
          fst (process_recipients e tw author p sp (recipients p) (w, 0))"
        using sender False by (auto simp: processP2PCommand_def Let_def split: prod.splits)
      from process_recipients_ledger[of e tw author p sp "recipients p" w 0]
      obtain added where a:
        "monibot_transactions (fst (process_recipients e tw author p sp (recipients p) (w, 0))) =
            monibot_transactions w @ added"
        "\<forall>r\<in>set added. tweet_id r = tw_id tw"
        "length added = (if db_up e then length (recipients p) else 0)"
        by blast
      have "recipients p \<noteq> []" using parseP2PCommand_Some[OF sender(3)] by simp
      with a(3) have "db_up e \<longrightarrow> added \<noteq> []" by auto
      moreover have "length added \<le> ?bound" using a(3) sender(3) by simp
      ultimately show ?thesis using a(1,2) eq by auto
    qed
  qed
qed

lemma processP2PCommand_recorded:
  assumes "has_length (select_existing e w (tw_id tw))"
  shows "processP2PCommand e w tw author = (w, False)"
  using assms by (simp add: processP2PCommand_def)

lemma processP2PCommand_leaves_record:
  assumes "db_up e" "db_up e'"
  shows "has_length (select_existing e' (fst (processP2PCommand e w tw author)) (tw_id tw))"
proof (cases "has_length (select_existing e w (tw_id tw))")
  case True
  then have "fst (processP2PCommand e w tw author) = w"
    by (simp add: processP2PCommand_recorded)
  with True assms show ?thesis by (simp add: has_length_select_existing)
next
  case False
  from processP2PCommand_ledger[of e w tw author] obtain added where
    a: "monibot_transactions (fst (processP2PCommand e w tw author)) =
          monibot_transactions w @ added"
      "\<forall>r\<in>set added. tweet_id r = tw_id tw" "added \<noteq> []"
    using False assms(1) by blast
  then obtain r where "r \<in> set added" by (cases added) auto
  with a show ?thesis using assms(2) by (auto simp: has_length_select_existing)
qed

lemma processCampaignReply_recorded:
  assumes "has_length (select_existing e w (tw_id reply))"
  shows "processCampaignReply e c us w reply = (w, Continue, 0)"
  using assms by (simp add: processCampaignReply_def)







section \<open>Idempotency and the shape of the ledger\<close>

text \<open>
  Claim C1, as amended. An event whose id already has a row in the ledger (the dedup query
  returns a row) is skipped entirely by both processors: the state is returned as it was, so
  nothing is parsed, no chain write is issued and no row is inserted. And once a direct
  command has been processed while the datastore answered, processing it again, in the same
  cycle or a later one, changes nothing: the second pass adds no row to those the first one
  wrote. The first pass may have written several rows for the id, one for each recipient.
\<close>

theorem recorded_event_is_skipped:
  "(has_length (select_existing e w (tw_id tw)) \<longrightarrow>
      processP2PCommand e w tw author = (w, False) \<and>
      processCampaignReply e c us w tw = (w, Continue, 0))
   \<and> (db_up e1 \<and> db_up e2 \<longrightarrow>
        processP2PCommand e2 (fst (processP2PCommand e1 w tw a1)) tw a2 =
          (fst (processP2PCommand e1 w tw a1), False))"
  using processP2PCommand_leaves_record[of e1 e2 w tw a1]
  by (simp add: processP2PCommand_recorded processCampaignReply_recorded)

lemma example_db_up: "db_up example_env"
  by (simp add: example_env_def)

theorem recorded_event_is_skipped_witness:
  "db_up example_env \<and>
   has_length (select_existing example_env
     (logSkip example_env empty_world ''1001'' ''SKIP_PARSE_FAILED'' ''carol_x'' None) ''1001'') \<and>
   processP2PCommand example_env
     (logSkip example_env empty_world ''1001'' ''SKIP_PARSE_FAILED'' ''carol_x'' None)
     tweet_two carol_user =
     (logSkip example_env empty_world ''1001'' ''SKIP_PARSE_FAILED'' ''carol_x'' None, False) \<and>
   processP2PCommand example_env
     (fst (processP2PCommand example_env empty_world tweet_two carol_user)) tweet_two carol_user =
     (fst (processP2PCommand example_env empty_world tweet_two carol_user), False)"
proof -
  let ?w = "logSkip example_env empty_world ''1001'' ''SKIP_PARSE_FAILED'' ''carol_x'' None"
  have h: "has_length (select_existing example_env ?w (tw_id tweet_two))"
    by (simp add: has_length_select_existing example_db_up logSkip_def insert_transaction_def
          skipped_row_sel tweet_two_def)
  have t: "tw_id tweet_two = ''1001''" by (simp add: tweet_two_def)
  show ?thesis
    using h recorded_event_is_skipped[where e = example_env and w = ?w and tw = tweet_two
        and author = carol_user and ?e1.0 = example_env and ?e2.0 = example_env
        and ?a1.0 = carol_user and ?a2.0 = carol_user and c = example_campaign
        and us = "[carol_user]"]
      recorded_event_is_skipped[where e = example_env and w = empty_world and tw = tweet_two
        and author = carol_user and ?e1.0 = example_env and ?e2.0 = example_env
        and ?a1.0 = carol_user and ?a2.0 = carol_user and c = example_campaign
        and us = "[carol_user]"] example_db_up
    by (simp add: t)
qed

text \<open>
  The claim as stated fails: a command with two recipients, processed twice, leaves two rows
  for its id.
\<close>

theorem reprocessing_leaves_two_records:
  "length (filter (\<lambda>r. tweet_id r = ''1001'')
     (monibot_transactions
        (fst (processP2PCommand example_env
                (fst (processP2PCommand example_env empty_world tweet_two carol_user))
                tweet_two carol_user)))) = 2"
proof -
  have "processP2PCommand example_env
          (fst (processP2PCommand example_env empty_world tweet_two carol_user))
          tweet_two carol_user =
        (fst (processP2PCommand example_env empty_world tweet_two carol_user), False)"
    using processP2PCommand_leaves_record[of example_env example_env empty_world tweet_two carol_user]
    by (simp add: processP2PCommand_recorded example_db_up)
  then show ?thesis by (simp add: process_tweet_two)
qed




section \<open>The balance check\<close>

lemma parse_Some_total_pos:
  assumes "parseP2PCommand s = Some p"
  shows "0 < amount p * of_nat (length (recipients p))"
proof -
  from parseP2PCommand_Some[OF assms] have "0 < amount p" "0 < length (recipients p)" by auto
  then show ?thesis by simp
qed




lemma tweet_two_fresh: "\<not> has_length (select_existing e empty_world (tw_id tweet_two))"
  by (simp add: has_length_select_existing empty_world_def)




section \<open>Quote-reposts\<close>





section \<open>A balance that cannot be read\<close>

text \<open>
  Claim C10. \<open>getAlphaUsdBalance\<close> returns a string for every address: when the read of
  the balance throws, the error is caught and the string is \<open>'0'\<close>, the same string a
  balance of zero gives. So an event whose sender's balance cannot be read, once it reaches
  the balance check, gets one \<open>failed\<close> row for an insufficient balance, with the balance
  \<open>'0'\<close>.
\<close>

theorem balance_read_failure_is_zero:
  assumes "readContract_balanceOf e addr = Inl err"
  shows "getAlphaUsdBalance e addr = ''0'' \<and>
         getAlphaUsdBalance (e\<lparr>readContract_balanceOf := (\<lambda>a. Inr 0)\<rparr>) addr = ''0'' \<and>
         (\<forall>w tw author parsed sp.
            db_up e \<and> \<not> has_length (select_existing e w (tw_id tw)) \<and>
            (''quoted'' \<notin> set (referenced_tweets tw) \<or> hasDirectCommand (tw_text tw)) \<and>
            parseP2PCommand (tw_text tw) = Some parsed \<and>
            select_profile_by_username e (username author) = Some sp \<and>
            js_or (tempo_address sp) (wallet_address sp) = addr \<longrightarrow>
            processP2PCommand e w tw author =
              (w\<lparr>monibot_transactions := monibot_transactions w @
                   [insufficient_balance_row tw sp parsed ''0''
                      (amount parsed * of_nat (length (recipients parsed)))]\<rparr>, False) \<and>
            status (insufficient_balance_row tw sp parsed ''0''
                      (amount parsed * of_nat (length (recipients parsed)))) = failed)"
proof -
  have z: "getAlphaUsdBalance e addr = ''0''"
    using assms by (simp add: getAlphaUsdBalance_def)
  have z': "getAlphaUsdBalance (e\<lparr>readContract_balanceOf := (\<lambda>a. Inr 0)\<rparr>) addr = ''0''"
    by (simp add: getAlphaUsdBalance_def format_examples)
  have "processP2PCommand e w tw author =
              (w\<lparr>monibot_transactions := monibot_transactions w @
                   [insufficient_balance_row tw sp parsed ''0''
                      (amount parsed * of_nat (length (recipients parsed)))]\<rparr>, False)"
    if "db_up e" "\<not> has_length (select_existing e w (tw_id tw))"
      "''quoted'' \<notin> set (referenced_tweets tw) \<or> hasDirectCommand (tw_text tw)"
      "parseP2PCommand (tw_text tw) = Some parsed"
      "select_profile_by_username e (username author) = Some sp"
      "js_or (tempo_address sp) (wallet_address sp) = addr"
    for w tw author parsed sp
  proof -
    have "number_less (parseFloat ''0'') (amount parsed * of_nat (length (recipients parsed)))"
      using parse_Some_total_pos[OF that(4)] by (simp add: number_less_def parseFloat_examples)
    with that z show ?thesis
      by (auto simp: processP2PCommand_def Let_def insert_transaction_def)
  qed
  with z z' show ?thesis
    by (simp add: insufficient_balance_row_def)
qed

lemma env_rpc_down_read: "readContract_balanceOf env_rpc_down a = Inl (Error ''rpc unreachable'')"
  by (simp add: env_rpc_down_def)

theorem balance_read_failure_is_zero_witness:
  "readContract_balanceOf env_rpc_down (Some ''0xCA401'') = Inl (Error ''rpc unreachable'') \<and>
   getAlphaUsdBalance env_rpc_down (Some ''0xCA401'') = ''0'' \<and>
   processP2PCommand env_rpc_down empty_world tweet_two carol_user =
     (empty_world\<lparr>monibot_transactions :=
        [insufficient_balance_row tweet_two carol
           \<lparr>amount = 5, recipients = [''alice'', ''bob''], isEach = False\<rparr> ''0'' 10]\<rparr>, False)"
proof -
  have up: "db_up env_rpc_down" by (simp add: env_rpc_down_def example_env_def)
  have q: "''quoted'' \<notin> set (referenced_tweets tweet_two) \<or> hasDirectCommand (tw_text tweet_two)"
    by (simp add: tweet_two_def)
  have s: "select_profile_by_username env_rpc_down (username carol_user) = Some carol"
    by (simp add: env_rpc_down_def example_defs db_defs)
  have a: "js_or (tempo_address carol) (wallet_address carol) = Some ''0xCA401''"
    by (simp add: carol_def js_or_def)
  from balance_read_failure_is_zero[OF env_rpc_down_read, of "Some ''0xCA401''"]
    up q s a tweet_two_fresh[of env_rpc_down] parse_tweet_two
  have "processP2PCommand env_rpc_down empty_world tweet_two carol_user =
     (empty_world\<lparr>monibot_transactions := monibot_transactions empty_world @
        [insufficient_balance_row tweet_two carol
           \<lparr>amount = 5, recipients = [''alice'', ''bob''], isEach = False\<rparr> ''0''
           (amount \<lparr>amount = 5, recipients = [''alice'', ''bob''], isEach = False\<rparr> *
            of_nat (length (recipients \<lparr>amount = 5, recipients = [''alice'', ''bob''], isEach = False\<rparr>)))]\<rparr>, False)"
    by blast
  moreover have "getAlphaUsdBalance env_rpc_down (Some ''0xCA401'') = ''0''"
    using balance_read_failure_is_zero[OF env_rpc_down_read, of "Some ''0xCA401''"] by blast
  ultimately show ?thesis
    by (simp add: env_rpc_down_read empty_world_def)
qed

section \<open>The fee split\<close>








section \<open>Address resolution\<close>












section \<open>Confirmation of writes and the poll cursor\<close>

lemma do_writeContract_ignores_receipt:
  "do_writeContract (e\<lparr>waitForTransactionReceipt := f\<rparr>) w req = do_writeContract e w req"
  by (simp add: do_writeContract_def)

lemma executeTransfer_ignores_receipt:
  "executeTransfer (e\<lparr>waitForTransactionReceipt := f\<rparr>) w addr a memo =
   executeTransfer e w addr a memo"
  by (simp add: executeTransfer_def do_writeContract_ignores_receipt Let_def
      cong: sum.case_cong prod.case_cong option.case_cong if_cong)

lemma ignores_receipt:
  "select_existing (e\<lparr>waitForTransactionReceipt := f\<rparr>) w tid = select_existing e w tid"
  "insert_transaction (e\<lparr>waitForTransactionReceipt := f\<rparr>) w row = insert_transaction e w row"
  "logSkip (e\<lparr>waitForTransactionReceipt := f\<rparr>) w tid tx s r = logSkip e w tid tx s r"
  "select_profile_by_username (e\<lparr>waitForTransactionReceipt := f\<rparr>) name =
     select_profile_by_username e name"
  "select_profile_by_tag (e\<lparr>waitForTransactionReceipt := f\<rparr>) tag = select_profile_by_tag e tag"
  "getAlphaUsdBalance (e\<lparr>waitForTransactionReceipt := f\<rparr>) addr = getAlphaUsdBalance e addr"
  "transfer_failed_row (e\<lparr>waitForTransactionReceipt := f\<rparr>) w tw sp rp p err =
     transfer_failed_row e w tw sp rp p err"
  by (simp_all add: select_existing_def insert_transaction_def logSkip_def skipped_row_def
        bot_profile_id_def select_profile_by_username_def select_profile_by_tag_def
        getAlphaUsdBalance_def transfer_failed_row_def)

lemma process_recipients_ignores_receipt:
  "process_recipients (e\<lparr>waitForTransactionReceipt := f\<rparr>) tw author p sp rs wn =
   process_recipients e tw author p sp rs wn"
proof (induction rs arbitrary: wn)
  case Nil
  then show ?case by (cases wn) simp
next
  case (Cons r rs)
  obtain w n where wn: "wn = (w, n)" by (cases wn)
  show ?case
    unfolding wn
    by (simp add: Cons.IH executeTransfer_ignores_receipt ignores_receipt Let_def
        cong: option.case_cong sum.case_cong prod.case_cong)
qed

lemma processP2PCommand_ignores_receipt:
  "processP2PCommand (e\<lparr>waitForTransactionReceipt := f\<rparr>) w tw author =
   processP2PCommand e w tw author"
  by (simp add: processP2PCommand_def process_recipients_ignores_receipt ignores_receipt Let_def
      cong: option.case_cong if_cong)

lemma executeGrant_waits:
  assumes "executeGrant e w addr a cid = (w', Inr r)"
  shows "\<exists>rcpt. waitForTransactionReceipt e (txHash r) 60000 = Inr rcpt"
  using assms
  by (auto simp: executeGrant_def Let_def split: sum.splits prod.splits)

lemma grant_reverted:
  "\<exists>r. snd (executeGrant
            (example_env\<lparr>waitForTransactionReceipt :=
               (\<lambda>h t. Inr \<lparr>blockNumber = 7, receipt_status = reverted\<rparr>)\<rparr>)
            empty_world (Some ''0xA11CE'') 5 ''camp-1'') = Inr r"
  by (simp add: executeGrant_def parseUnits_5 do_writeContract_def Let_def
        example_env_def empty_world_def)

text \<open>
  Claim C3, at its failing input. \<open>executeTransfer\<close> never waits for a receipt: its result
  is the same whatever \<open>waitForTransactionReceipt\<close> would answer. In a world where no
  transaction is ever mined it returns the hash of the first write as a success, and
  \<open>processP2PCommand\<close> records both transfers of the example as \<open>completed\<close>, while
  \<open>executeGrant\<close> in the same world throws the timeout of its 60 second wait.
  \<open>executeGrant\<close> in turn never reads the status of the receipt it waited for: when the
  wait resolves with a reverted receipt, it returns a success.
\<close>

theorem transfer_returns_unconfirmed:
  "executeTransfer (e\<lparr>waitForTransactionReceipt := f\<rparr>) w addr a memo =
     executeTransfer e w addr a memo \<and>
   (\<forall>h t. waitForTransactionReceipt env_never_mined h t = Inl (Error ''timed out'')) \<and>
   snd (executeTransfer env_never_mined empty_world (Some ''0xA11CE'') 5 []) =
     Inr \<lparr>txHash = ''0xhash0'', res_amount = ''5'', fee = ''0.065'', netAmount = ''4.935'',
          res_blockNumber = None\<rparr> \<and>
   snd (executeGrant env_never_mined empty_world (Some ''0xA11CE'') 5 ''camp-1'') =
     Inl (Error ''timed out'') \<and>
   map status (monibot_transactions
      (fst (processP2PCommand env_never_mined empty_world tweet_two carol_user))) =
     [completed, completed] \<and>
   (\<exists>r. snd (executeGrant
            (example_env\<lparr>waitForTransactionReceipt :=
               (\<lambda>h t. Inr \<lparr>blockNumber = 7, receipt_status = reverted\<rparr>)\<rparr>)
            empty_world (Some ''0xA11CE'') 5 ''camp-1'') = Inr r)"
proof -
  have 1: "snd (executeTransfer example_env empty_world (Some ''0xA11CE'') 5 []) =
     Inr \<lparr>txHash = ''0xhash0'', res_amount = ''5'', fee = ''0.065'', netAmount = ''4.935'',
          res_blockNumber = None\<rparr>"
    by (simp add: executeTransfer_def parseUnits_5 fee_5 do_writeContract_def Let_def
          example_env_def empty_world_def format_examples show_nat_small)
  have 2: "snd (executeGrant env_never_mined empty_world (Some ''0xA11CE'') 5 ''camp-1'') =
     Inl (Error ''timed out'')"
    by (simp add: executeGrant_def parseUnits_5 do_writeContract_def Let_def
          env_never_mined_def example_env_def empty_world_def)
  show ?thesis
    using 1 2 grant_reverted
    by (simp add: env_never_mined_def executeTransfer_ignores_receipt
          processP2PCommand_ignores_receipt process_tweet_two)
qed

lemma process_recipients_cursor:
  "lastProcessedTweetId (fst (process_recipients e tw author p sp rs (w, n))) =
   lastProcessedTweetId w"
proof (induction rs arbitrary: w n)
  case Nil
  then show ?case by simp
next
  case (Cons r rs)
  show ?case
  proof (cases "select_profile_by_tag e r")
    case None
    then show ?thesis by (simp add: Cons.IH insert_transaction_frame)
  next
    case (Some rp)
    obtain w1 res where ex: "executeTransfer e w (js_or (tempo_address rp) (wallet_address rp))
        (amount p) (transfer_memo author r) = (w1, res)"
      by (cases "executeTransfer e w (js_or (tempo_address rp) (wallet_address rp))
        (amount p) (transfer_memo author r)")
    have "lastProcessedTweetId w1 = lastProcessedTweetId w"
      using executeTransfer_frame(3)[of e w "js_or (tempo_address rp) (wallet_address rp)"
          "amount p" "transfer_memo author r"] by (simp add: ex)
    then show ?thesis
      using Some ex by (cases res) (simp_all add: Cons.IH insert_transaction_frame Let_def)
  qed
qed

lemma process_recipients_cursor':
  "process_recipients e tw author p sp rs (w, n) = (w', k) \<Longrightarrow>
   lastProcessedTweetId w' = lastProcessedTweetId w"
  using process_recipients_cursor[of e tw author p sp rs w n] by simp

lemma processP2PCommand_cursor:
  "lastProcessedTweetId (fst (processP2PCommand e w tw author)) = lastProcessedTweetId w"
  by (auto simp: processP2PCommand_def logSkip_def insert_transaction_frame Let_def
      split: option.split prod.split dest: process_recipients_cursor')

lemma process_tweets_cursor:
  "lastProcessedTweetId (fst (process_tweets e us tws (w, n))) = lastProcessedTweetId w"
proof (induction tws arbitrary: w n)
  case Nil
  then show ?case by simp
next
  case (Cons tw rest)
  show ?case
  proof (cases "find (\<lambda>u. user_id u = author_id tw) us")
    case None
    then show ?thesis by (simp add: Cons.IH)
  next
    case (Some author)
    obtain w' r where p: "processP2PCommand e w tw author = (w', r)"
      by (cases "processP2PCommand e w tw author")
    have "lastProcessedTweetId w' = lastProcessedTweetId w"
      using processP2PCommand_cursor[of e w tw author] by (simp add: p)
    then show ?thesis using Some p by (simp add: Cons.IH)
  qed
qed

lemma cursor_moves_before_processing:
  assumes "twitter_client e" "search e (js_or (lastProcessedTweetId w) None) = Inr m"
    "data m = Some tws"
  shows "lastProcessedTweetId (fst (pollP2PCommands e w)) =
           js_or (newest_id m) (lastProcessedTweetId w)"
  using assms by (simp add: pollP2PCommands_def process_tweets_cursor)

text \<open>
  Claim C9, at its failing input. A cycle fetches the event 1001 while the datastore does not
  answer: no row is written, and the cursor is already at 1001. In the next cycle, with the
  datastore back, the search is made with \<open>since_id = 1001\<close>, does not return the event,
  and the ledger stays empty.
\<close>

theorem unrecorded_event_is_not_refetched:
  "search env_db_down None =
     Inr \<lparr>data = Some [tweet_two], newest_id = Some ''1001'', users = [carol_user]\<rparr> \<and>
   pollP2PCommands env_db_down empty_world =
     (empty_world\<lparr>lastProcessedTweetId := Some ''1001''\<rparr>, 0) \<and>
   search example_env (Some ''1001'') = Inr \<lparr>data = None, newest_id = None, users = []\<rparr> \<and>
   pollP2PCommands example_env (empty_world\<lparr>lastProcessedTweetId := Some ''1001''\<rparr>) =
     (empty_world\<lparr>lastProcessedTweetId := Some ''1001''\<rparr>, 0) \<and>
   monibot_transactions (empty_world\<lparr>lastProcessedTweetId := Some ''1001''\<rparr>) = []"
proof -
  have s1: "search env_db_down None =
     Inr \<lparr>data = Some [tweet_two], newest_id = Some ''1001'', users = [carol_user]\<rparr>"
    and s2: "search example_env (Some ''1001'') = Inr \<lparr>data = None, newest_id = None, users = []\<rparr>"
    and tc: "twitter_client env_db_down" "twitter_client example_env"
    and down: "\<not> db_up env_db_down"
    by (simp_all add: env_db_down_def example_env_def)
  have rel: "isTempoRelated (tw_text tweet_two)"
    by (simp add: isTempoRelated_def TEMPO_KEYWORDS_def tweet_two_def char_defs)
  have au: "find (\<lambda>u. user_id u = author_id tweet_two) [carol_user] = Some carol_user"
    by (simp add: tweet_two_def carol_user_def)
  have p: "processP2PCommand env_db_down w tweet_two carol_user = (w, False)" for w
    unfolding processP2PCommand_def parse_tweet_two
    by (simp add: down select_existing_def has_length_def select_profile_by_username_def
          logSkip_def insert_transaction_def tweet_two_def)
  have c1: "pollP2PCommands env_db_down empty_world =
     (empty_world\<lparr>lastProcessedTweetId := Some ''1001''\<rparr>, 0)"
    by (simp add: pollP2PCommands_def tc s1 js_or_def empty_world_def au rel p)
  have c2: "pollP2PCommands example_env (empty_world\<lparr>lastProcessedTweetId := Some ''1001''\<rparr>) =
     (empty_world\<lparr>lastProcessedTweetId := Some ''1001''\<rparr>, 0)"
    by (simp add: pollP2PCommands_def tc js_or_def s2)
  show ?thesis using s1 s2 c1 c2 by (simp add: empty_world_def)
qed

theorem transfer_returns_unconfirmed_witness:
  "map status (monibot_transactions
      (fst (processP2PCommand env_never_mined empty_world tweet_two carol_user))) =
     [completed, completed] \<and>
   waitForTransactionReceipt env_never_mined ''0xhash0'' 60000 = Inl (Error ''timed out'')"
  using transfer_returns_unconfirmed [where e = example_env and w = empty_world]
  by simp

theorem unrecorded_event_is_not_refetched_witness:
  "lastProcessedTweetId (fst (pollP2PCommands env_db_down empty_world)) = Some ''1001'' \<and>
   monibot_transactions (fst (pollP2PCommands env_db_down empty_world)) = []"
  using unrecorded_event_is_not_refetched
  by (simp add: empty_world_def)

end
